theory Spec2Isabelle
  imports Complex_Main "HOL-Library.Word"
begin

section \<open>Go values: strings, integers, formatted output\<close>

text \<open>
  A Go string is a sequence of bytes, modelled as \<open>string\<close> (a \<open>char list\<close>, one
  \<open>char\<close> per byte); \<open>len\<close> is \<open>length\<close>. Go's \<open>int\<close> is the 64-bit
  two's-complement integer of the usual server platforms: \<open>+\<close> wraps around.
\<close>

type_synonym go_int = "64 word"

definition byte :: "char \<Rightarrow> nat" where
  "byte c = of_char c"

definition isDigit :: "char \<Rightarrow> bool" where
  "isDigit c = (48 \<le> byte c \<and> byte c \<le> 57)"

definition isLowerLetter :: "char \<Rightarrow> bool" where
  "isLowerLetter c = (97 \<le> byte c \<and> byte c \<le> 122)"

definition isUpperLetter :: "char \<Rightarrow> bool" where
  "isUpperLetter c = (65 \<le> byte c \<and> byte c \<le> 90)"

definition digitVal :: "char \<Rightarrow> nat" where
  "digitVal c = byte c - 48"

definition digitChar :: "nat \<Rightarrow> char" where
  "digitChar d = ''0123456789'' ! d"

text \<open>The decimal digits of a natural number, most significant first.\<close>

fun digits :: "nat \<Rightarrow> string" where
  "digits n = (if n < 10 then [digitChar n] else digits (n div 10) @ [digitChar (n mod 10)])"

declare digits.simps [simp del]

text \<open>The verb \<open>%d\<close> of \<open>fmt.Sprintf\<close>, on the value of the integer.\<close>

definition fmt_d :: "int \<Rightarrow> string" where
  "fmt_d i = (if i < 0 then CHR ''-'' # digits (nat (- i)) else digits (nat i))"

section \<open>float64\<close>

text \<open>
  An IEEE 754 binary64 value: a finite value is its sign bit and the exact magnitude (a
  rational; \<open>Finite True 0\<close> is the negative zero), else an infinity or NaN. Every
  operation below computes the exact result and rounds it to the nearest representable
  value, ties to even, which is what the hardware and \<open>strconv\<close> do.
\<close>

datatype float64 = Finite bool rat | Infinity bool | NaN

text \<open>\<open>bits.Len\<close>: the number of bits of a natural number.\<close>

fun bitLen :: "nat \<Rightarrow> nat" where
  "bitLen n = (if n = 0 then 0 else Suc (bitLen (n div 2)))"

declare bitLen.simps [simp del]

text \<open>The binary exponent \<open>e\<close> of a positive rational: \<open>2^e \<le> q < 2^(e+1)\<close>.\<close>

definition floorLog2 :: "rat \<Rightarrow> int" where
  "floorLog2 q =
     (if 1 \<le> q then int (bitLen (nat \<lfloor>q\<rfloor>)) - 1
      else - int (bitLen (nat (\<lceil>1 / q\<rceil> - 1))))"

definition scale2 :: "rat \<Rightarrow> int \<Rightarrow> rat" where
  "scale2 q e = (if 0 \<le> e then q * 2 ^ nat e else q / 2 ^ nat (- e))"

definition roundHalfEven :: "rat \<Rightarrow> int" where
  "roundHalfEven q =
     (let f = \<lfloor>q\<rfloor>; r = q - of_int f
      in if 1 / 2 < r \<or> (r = 1 / 2 \<and> odd f) then f + 1 else f)"

text \<open>
  Rounding a magnitude to binary64: 53 bits of mantissa, exponents from \<open>-1022\<close>
  (below it the subnormal spacing \<open>2^-1074\<close>) to \<open>1023\<close>, overflow to infinity.
\<close>

definition roundFloat64 :: "bool \<Rightarrow> rat \<Rightarrow> float64" where
  "roundFloat64 neg q =
     (if q = 0 then Finite neg 0
      else
        let sh = max (floorLog2 q) (- 1022) - 52;
            m = roundHalfEven (scale2 q (- sh))
        in if 971 < sh \<or> (sh = 971 \<and> m = 2 ^ 53) then Infinity neg
           else Finite neg (scale2 (of_int m) sh))"

text \<open>The comparison \<open>==\<close>: NaN equals nothing, the two zeros are equal.\<close>

fun f64_eq :: "float64 \<Rightarrow> float64 \<Rightarrow> bool" where
  "f64_eq (Finite s m) (Finite t n) = ((if s then - m else m) = (if t then - n else n))"
| "f64_eq (Infinity s) (Infinity t) = (s = t)"
| "f64_eq _ _ = False"

text \<open>The product \<open>x * y\<close>.\<close>

fun f64_mul :: "float64 \<Rightarrow> float64 \<Rightarrow> float64" where
  "f64_mul (Finite s m) (Finite t n) = roundFloat64 (s \<noteq> t) (m * n)"
| "f64_mul (Finite s m) (Infinity t) = (if m = 0 then NaN else Infinity (s \<noteq> t))"
| "f64_mul (Infinity s) (Finite t n) = (if n = 0 then NaN else Infinity (s \<noteq> t))"
| "f64_mul (Infinity s) (Infinity t) = Infinity (s \<noteq> t)"
| "f64_mul _ _ = NaN"

text \<open>\<open>math.Ceil\<close>: the least integral value not below \<open>x\<close>; exact.\<close>

fun Ceil :: "float64 \<Rightarrow> float64" where
  "Ceil (Finite neg m) =
     (if neg then Finite True (of_int \<lfloor>m\<rfloor>) else Finite False (of_int \<lceil>m\<rceil>))"
| "Ceil x = x"

text \<open>
  \<open>math.Mod\<close>: the remainder of \<open>x / y\<close> with the sign of \<open>x\<close>; exact. Its special
  cases: NaN for an infinite or NaN \<open>x\<close>, for a zero or NaN \<open>y\<close>; \<open>x\<close> for an
  infinite \<open>y\<close>.
\<close>

fun Mod :: "float64 \<Rightarrow> float64 \<Rightarrow> float64" where
  "Mod (Finite s m) (Finite t n) =
     (if n = 0 then NaN else Finite s (m - n * of_int \<lfloor>m / n\<rfloor>))"
| "Mod (Finite s m) (Infinity t) = Finite s m"
| "Mod _ _ = NaN"

text \<open>The conversion \<open>float64(i)\<close> of an \<open>int\<close>.\<close>

definition float64_of_int :: "go_int \<Rightarrow> float64" where
  "float64_of_int w = roundFloat64 (sint w < 0) (of_int \<bar>sint w\<bar>)"

text \<open>
  The conversion \<open>int(x)\<close>: the fraction is discarded (truncation towards zero). When the
  result does not fit the integer type (also for an infinity and NaN) the language leaves
  the value to the implementation, so that value is the parameter \<open>conv\<close>:
  \<open>conv_amd64\<close> is what the x86-64 instruction returns, \<open>conv_arm64\<close> saturates.
\<close>

definition int_of_float64 :: "(float64 \<Rightarrow> go_int) \<Rightarrow> float64 \<Rightarrow> go_int" where
  "int_of_float64 conv x =
     (case x of
        Finite neg m \<Rightarrow>
          (let v = (if neg then - \<lfloor>m\<rfloor> else \<lfloor>m\<rfloor>)
           in if - (2 ^ 63) \<le> v \<and> v < 2 ^ 63 then word_of_int v else conv x)
      | _ \<Rightarrow> conv x)"

definition conv_amd64 :: "float64 \<Rightarrow> go_int" where
  "conv_amd64 x = word_of_int (- (2 ^ 63))"

definition conv_arm64 :: "float64 \<Rightarrow> go_int" where
  "conv_arm64 x =
     (case x of
        Finite neg m \<Rightarrow> (if neg then word_of_int (- (2 ^ 63)) else word_of_int (2 ^ 63 - 1))
      | Infinity neg \<Rightarrow> (if neg then word_of_int (- (2 ^ 63)) else word_of_int (2 ^ 63 - 1))
      | NaN \<Rightarrow> 0)"

text \<open>
  The verb \<open>%.2f\<close>: the exact decimal expansion rounded to two fractional digits, ties
  to even; a negative zero keeps its sign.
\<close>

definition fmt_f2 :: "float64 \<Rightarrow> string" where
  "fmt_f2 x =
     (case x of
        Finite neg m \<Rightarrow>
          (let n = nat (roundHalfEven (m * 100))
           in (if neg then ''-'' else []) @ digits (n div 100) @ ''.'' @
              [digitChar (n mod 100 div 10), digitChar (n mod 10)])
      | Infinity neg \<Rightarrow> (if neg then ''-Inf'' else ''+Inf'')
      | NaN \<Rightarrow> ''NaN'')"

section \<open>strconv.ParseFloat\<close>

text \<open>
  \<open>strconv.ParseFloat(s, 64)\<close> reads a decimal or hexadecimal floating-point literal
  (optional sign, digits with an optional point, optional exponent, underscores between
  digits) or one of the words \<open>inf\<close>, \<open>infinity\<close>, \<open>nan\<close>, and returns the nearest
  float64. A string that is not such a literal gives \<open>0\<close> and \<open>ErrSyntax\<close>; a literal
  beyond the largest float64 gives an infinity and \<open>ErrRange\<close>.
\<close>

datatype NumError = ErrSyntax | ErrRange

text \<open>\<open>lower(c)\<close> is \<open>c | 0x20\<close>: bit 5 of the byte set.\<close>

definition lower :: "char \<Rightarrow> nat" where
  "lower c = (if byte c div 32 mod 2 = 0 then byte c + 32 else byte c)"

definition commonPrefixLenIgnoreCase :: "string \<Rightarrow> string \<Rightarrow> nat" where
  "commonPrefixLenIgnoreCase s pre =
     length (takeWhile (\<lambda>(c, p). (if isUpperLetter c then byte c + 32 else byte c) = byte p)
               (zip s pre))"

definition infinityWord :: "bool \<Rightarrow> nat \<Rightarrow> string \<Rightarrow> (float64 \<times> nat) option" where
  "infinityWord neg nsign s =
     (let n = commonPrefixLenIgnoreCase s ''infinity'';
          n = (if 3 < n \<and> n < 8 then 3 else n)
      in if n = 3 \<or> n = 8 then Some (Infinity neg, nsign + n) else None)"

definition special :: "string \<Rightarrow> (float64 \<times> nat) option" where
  "special s =
     (case s of
        [] \<Rightarrow> None
      | c # cs \<Rightarrow>
          if c = CHR ''+'' \<or> c = CHR ''-'' then infinityWord (c = CHR ''-'') 1 cs
          else if c = CHR ''i'' \<or> c = CHR ''I'' then infinityWord False 0 s
          else if c = CHR ''n'' \<or> c = CHR ''N'' then
            (if commonPrefixLenIgnoreCase s ''nan'' = 3 then Some (NaN, 3) else None)
          else None)"

record readState =
  mantissa :: nat
  nd :: nat
  dp :: int
  sawdot :: bool
  sawdigits :: bool
  underscores :: bool

text \<open>
  The digit loop of \<open>readFloat\<close>. The mantissa keeps every digit (the library cuts it
  at 19 digits and then converts the whole literal again, exactly). It returns the state
  and the unread rest of the string.
\<close>

fun readDigits :: "bool \<Rightarrow> string \<Rightarrow> readState \<Rightarrow> readState \<times> string" where
  "readDigits hex [] st = (st, [])"
| "readDigits hex (c # cs) st =
     (if c = CHR ''_'' then readDigits hex cs (st\<lparr>underscores := True\<rparr>)
      else if c = CHR ''.'' then
        (if sawdot st then (st, c # cs)
         else readDigits hex cs (st\<lparr>sawdot := True, dp := int (nd st)\<rparr>))
      else if isDigit c then
        (if c = CHR ''0'' \<and> nd st = 0
         then readDigits hex cs (st\<lparr>sawdigits := True, dp := dp st - 1\<rparr>)
         else readDigits hex cs
                (st\<lparr>sawdigits := True, nd := nd st + 1,
                    mantissa := mantissa st * (if hex then 16 else 10) + digitVal c\<rparr>))
      else if hex \<and> 97 \<le> lower c \<and> lower c \<le> 102 then
        readDigits hex cs
          (st\<lparr>sawdigits := True, nd := nd st + 1,
              mantissa := mantissa st * 16 + (lower c - 97 + 10)\<rparr>)
      else (st, c # cs))"

text \<open>The digits of the exponent: the value stops growing at 10000.\<close>

fun readExpDigits :: "string \<Rightarrow> nat \<Rightarrow> bool \<Rightarrow> (nat \<times> bool) \<times> string" where
  "readExpDigits [] e us = ((e, us), [])"
| "readExpDigits (c # cs) e us =
     (if c = CHR ''_'' then readExpDigits cs e True
      else if isDigit c then readExpDigits cs (if e < 10000 then e * 10 + digitVal c else e) us
      else ((e, us), c # cs))"

definition readExponent :: "bool \<Rightarrow> string \<Rightarrow> (int \<times> bool \<times> string) option" where
  "readExponent hex s =
     (case s of
        [] \<Rightarrow> (if hex then None else Some (0, False, []))
      | c # cs \<Rightarrow>
          if lower c = (if hex then 112 else 101) then
            (if cs = [] then None
             else
               let esign = (if hd cs = CHR ''-'' then - 1 else 1);
                   cs1 = (if hd cs = CHR ''+'' \<or> hd cs = CHR ''-'' then tl cs else cs)
               in if cs1 = [] \<or> \<not> isDigit (hd cs1) then None
                  else
                    (case readExpDigits cs1 0 False of
                       ((e, us), rest) \<Rightarrow> Some (int e * esign, us, rest)))
          else if hex then None
          else Some (0, False, s))"

text \<open>
  \<open>underscoreOK\<close>: an underscore stands only between digits, or between a base prefix
  and a digit. \<open>saw\<close> is the kind of the last character: \<open>0\<close> a digit or base prefix,
  \<open>1\<close> an underscore, \<open>2\<close> the start or anything else.
\<close>

fun underscoreLoop :: "bool \<Rightarrow> nat \<Rightarrow> string \<Rightarrow> bool" where
  "underscoreLoop hex saw [] = (saw \<noteq> 1)"
| "underscoreLoop hex saw (c # cs) =
     (if isDigit c \<or> (hex \<and> 97 \<le> lower c \<and> lower c \<le> 102) then underscoreLoop hex 0 cs
      else if c = CHR ''_'' then (if saw \<noteq> 0 then False else underscoreLoop hex 1 cs)
      else if saw = 1 then False
      else underscoreLoop hex 2 cs)"

definition underscoreOK :: "string \<Rightarrow> bool" where
  "underscoreOK s0 =
     (let s = (case s0 of [] \<Rightarrow> [] | c # cs \<Rightarrow> if c = CHR ''-'' \<or> c = CHR ''+'' then cs else s0)
      in case s of
           c0 # c1 # cs \<Rightarrow>
             if c0 = CHR ''0'' \<and> (lower c1 = 98 \<or> lower c1 = 111 \<or> lower c1 = 120)
             then underscoreLoop (lower c1 = 120) 0 cs
             else underscoreLoop False 2 s
         | _ \<Rightarrow> underscoreLoop False 2 s)"

text \<open>
  \<open>readFloat\<close>: the sign, whether the literal is hexadecimal, the mantissa, the exponent
  of the base (10, or 2 for a hexadecimal literal) and the number of bytes read; \<open>None\<close>
  when the string does not start with a literal.
\<close>

definition readFloat :: "string \<Rightarrow> (bool \<times> bool \<times> nat \<times> int \<times> nat) option" where
  "readFloat s =
     (if s = [] then None
      else
        let neg = (hd s = CHR ''-'');
            s1 = (if hd s = CHR ''+'' \<or> hd s = CHR ''-'' then tl s else s);
            hex = (case s1 of c0 # c1 # c2 # cs \<Rightarrow> c0 = CHR ''0'' \<and> lower c1 = 120 | _ \<Rightarrow> False);
            s2 = (if hex then drop 2 s1 else s1)
        in case readDigits hex s2
                  \<lparr>mantissa = 0, nd = 0, dp = 0, sawdot = False, sawdigits = False,
                   underscores = False\<rparr> of
             (st, s3) \<Rightarrow>
               if \<not> sawdigits st then None
               else
                 let dp1 = (if sawdot st then dp st else int (nd st));
                     dp2 = (if hex then dp1 * 4 else dp1);
                     ndMant = (if hex then int (nd st) * 4 else int (nd st))
                 in case readExponent hex s3 of
                      None \<Rightarrow> None
                    | Some (e, us, s4) \<Rightarrow>
                        let i = length s - length s4
                        in if (underscores st \<or> us) \<and> \<not> underscoreOK (take i s) then None
                           else Some (neg, hex, mantissa st, dp2 + e - ndMant, i))"

definition scale10 :: "rat \<Rightarrow> int \<Rightarrow> rat" where
  "scale10 q e = (if 0 \<le> e then q * 10 ^ nat e else q / 10 ^ nat (- e))"

definition ParseFloat :: "string \<Rightarrow> float64 \<times> NumError option" where
  "ParseFloat s =
     (case special s of
        Some (val, n) \<Rightarrow> if n = length s then (val, None) else (Finite False 0, Some ErrSyntax)
      | None \<Rightarrow>
          (case readFloat s of
             None \<Rightarrow> (Finite False 0, Some ErrSyntax)
           | Some (neg, hex, mant, ex, n) \<Rightarrow>
               if n \<noteq> length s then (Finite False 0, Some ErrSyntax)
               else
                 let f = roundFloat64 neg
                           (if hex then scale2 (of_nat mant) ex else scale10 (of_nat mant) ex)
                 in (f, case f of Infinity i \<Rightarrow> Some ErrRange | _ \<Rightarrow> None)))"

section \<open>time.Parse\<close>

text \<open>
  The value of a parsed time: the fields the program reads with \<open>Day()\<close> and
  \<open>Hour()\<close>, and those that decide whether a date exists. \<open>zeroTime\<close> is the zero
  \<open>Time{}\<close> that \<open>time.Parse\<close> returns with every error: January 1 of year 1, 00:00.
\<close>

record Time =
  Year :: int
  Month :: int
  Day :: int
  Hour :: int
  Minute :: int

definition zeroTime :: Time where
  "zeroTime = \<lparr>Year = 1, Month = 1, Day = 1, Hour = 0, Minute = 0\<rparr>"

datatype ParseError = ParseError

text \<open>
  A layout is cut into chunks, each a literal prefix and the element that follows it. The
  program uses two layouts: \<open>"2006-01-02"\<close> and \<open>"15:04"\<close>.
\<close>

datatype std = stdLongYear | stdZeroMonth | stdZeroDay | stdHour | stdZeroMinute

definition layout_2006_01_02 :: "(string \<times> std) list" where
  "layout_2006_01_02 = [([], stdLongYear), (''-'', stdZeroMonth), (''-'', stdZeroDay)]"

definition layout_15_04 :: "(string \<times> std) list" where
  "layout_15_04 = [([], stdHour), ('':'', stdZeroMinute)]"

text \<open>\<open>skip\<close> removes a literal prefix from the value (no prefix here holds a space).\<close>

fun skip :: "string \<Rightarrow> string \<Rightarrow> string option" where
  "skip val [] = Some val"
| "skip [] (p # ps) = None"
| "skip (v # vs) (p # ps) = (if v \<noteq> p then None else skip vs ps)"

text \<open>
  \<open>getnum\<close> reads one or two digits; with \<open>fixed\<close> it demands two. \<open>atoi\<close> reads an
  optionally signed number that fills the whole string.
\<close>

definition getnum :: "string \<Rightarrow> bool \<Rightarrow> (int \<times> string) option" where
  "getnum s fixed =
     (case s of
        [] \<Rightarrow> None
      | c0 # rest \<Rightarrow>
          if \<not> isDigit c0 then None
          else
            (case rest of
               [] \<Rightarrow> if fixed then None else Some (int (digitVal c0), rest)
             | c1 # rest' \<Rightarrow>
                 if \<not> isDigit c1 then (if fixed then None else Some (int (digitVal c0), rest))
                 else Some (int (digitVal c0) * 10 + int (digitVal c1), rest')))"

definition leadingInt :: "string \<Rightarrow> nat \<times> string" where
  "leadingInt s =
     (foldl (\<lambda>x c. x * 10 + digitVal c) 0 (takeWhile isDigit s), dropWhile isDigit s)"

definition atoi :: "string \<Rightarrow> int option" where
  "atoi s0 =
     (let neg = (s0 \<noteq> [] \<and> hd s0 = CHR ''-'');
          s = (if s0 \<noteq> [] \<and> (hd s0 = CHR ''-'' \<or> hd s0 = CHR ''+'') then tl s0 else s0)
      in case leadingInt s of
           (q, rem) \<Rightarrow> if rem \<noteq> [] then None else Some (if neg then - int q else int q))"

text \<open>
  One element of the layout, read from the front of the value: the updated fields and the
  rest of the value, or \<open>None\<close> for a value that is malformed or out of range. The day is
  checked against the month only after the whole value has been read.
\<close>

fun parseStd :: "std \<Rightarrow> string \<Rightarrow> Time \<Rightarrow> (Time \<times> string) option" where
  "parseStd stdLongYear val t =
     (if length val < 4 \<or> \<not> isDigit (hd val) then None
      else (case atoi (take 4 val) of
              None \<Rightarrow> None
            | Some y \<Rightarrow> Some (t\<lparr>Year := y\<rparr>, drop 4 val)))"
| "parseStd stdZeroMonth val t =
     (case getnum val True of
        None \<Rightarrow> None
      | Some (m, rest) \<Rightarrow> if m \<le> 0 \<or> 12 < m then None else Some (t\<lparr>Month := m\<rparr>, rest))"
| "parseStd stdZeroDay val t =
     (case getnum val True of
        None \<Rightarrow> None
      | Some (d, rest) \<Rightarrow> Some (t\<lparr>Day := d\<rparr>, rest))"
| "parseStd stdHour val t =
     (case getnum val False of
        None \<Rightarrow> None
      | Some (h, rest) \<Rightarrow> if h < 0 \<or> 24 \<le> h then None else Some (t\<lparr>Hour := h\<rparr>, rest))"
| "parseStd stdZeroMinute val t =
     (case getnum val True of
        None \<Rightarrow> None
      | Some (m, rest) \<Rightarrow> if m < 0 \<or> 60 \<le> m then None else Some (t\<lparr>Minute := m\<rparr>, rest))"

text \<open>The loop over the chunks; text left over after the last one is an error.\<close>

fun parseChunks :: "(string \<times> std) list \<Rightarrow> string \<Rightarrow> Time \<Rightarrow> Time option" where
  "parseChunks [] val t = (if val \<noteq> [] then None else Some t)"
| "parseChunks ((pre, sd) # layout) val t =
     (case skip val pre of
        None \<Rightarrow> None
      | Some val1 \<Rightarrow>
          (case parseStd sd val1 t of
             None \<Rightarrow> None
           | Some (t1, val2) \<Rightarrow> parseChunks layout val2 t1))"

definition isLeap :: "int \<Rightarrow> bool" where
  "isLeap y = (y mod 4 = 0 \<and> (y mod 100 \<noteq> 0 \<or> y mod 400 = 0))"

definition daysIn :: "int \<Rightarrow> int \<Rightarrow> int" where
  "daysIn m y =
     (if m = 2 \<and> isLeap y then 29
      else [31, 28, 31, 30, 31, 30, 31, 31, 30, 31, 30, 31] ! nat (m - 1))"

definition time_Parse :: "(string \<times> std) list \<Rightarrow> string \<Rightarrow> Time \<times> ParseError option" where
  "time_Parse layout val =
     (case parseChunks layout val \<lparr>Year = 0, Month = - 1, Day = - 1, Hour = 0, Minute = 0\<rparr> of
        None \<Rightarrow> (zeroTime, Some ParseError)
      | Some t \<Rightarrow>
          let m = (if Month t < 0 then 1 else Month t);
              d = (if Day t < 0 then 1 else Day t)
          in if d < 1 \<or> daysIn m (Year t) < d then (zeroTime, Some ParseError)
             else (t\<lparr>Month := m, Day := d\<rparr>, None))"

section \<open>strings.TrimSpace and the regular expressions\<close>

text \<open>
  \<open>strings.TrimSpace\<close> removes the leading and the trailing white space, as Unicode
  defines it, of a UTF-8 string: the six ASCII characters tab, line feed, vertical tab,
  form feed, carriage return and space, and the runes U+0085, U+00A0, U+1680,
  U+2000 to U+200A, U+2028, U+2029, U+202F, U+205F and U+3000, listed here by their
  encodings.
\<close>

definition spaceEncodings :: "nat list list" where
  "spaceEncodings =
     [[9], [10], [11], [12], [13], [32], [194, 133], [194, 160], [225, 154, 128],
      [226, 128, 128], [226, 128, 129], [226, 128, 130], [226, 128, 131], [226, 128, 132],
      [226, 128, 133], [226, 128, 134], [226, 128, 135], [226, 128, 136], [226, 128, 137],
      [226, 128, 138], [226, 128, 168], [226, 128, 169], [226, 128, 175], [226, 129, 159],
      [227, 128, 128]]"

text \<open>The width in bytes of the white-space rune at the head of the string; 0 for none.\<close>

definition spaceWidth :: "nat list list \<Rightarrow> string \<Rightarrow> nat" where
  "spaceWidth encs s =
     (case find (\<lambda>e. map byte (take (length e) s) = e) encs of
        None \<Rightarrow> 0
      | Some e \<Rightarrow> length e)"

function trimLeft :: "nat list list \<Rightarrow> string \<Rightarrow> string" where
  "trimLeft encs s =
     (if s = [] \<or> spaceWidth encs s = 0 then s else trimLeft encs (drop (spaceWidth encs s) s))"
  by pat_completeness auto
termination
  by (relation "measure (\<lambda>(encs, s). length s)") auto

declare trimLeft.simps [simp del]

definition TrimSpace :: "string \<Rightarrow> string" where
  "TrimSpace s = rev (trimLeft (map rev spaceEncodings) (rev (trimLeft spaceEncodings s)))"

text \<open>
  The character classes of the regular expressions: \<open>\w\<close> is \<open>[0-9A-Za-z_]\<close>,
  \<open>\s\<close> is \<open>[\t\n\f\r ]\<close>, \<open>\d\<close> is \<open>[0-9]\<close>. All are ASCII, so a string matches
  byte by byte.
\<close>

definition isWord :: "char \<Rightarrow> bool" where
  "isWord c = (isDigit c \<or> isUpperLetter c \<or> isLowerLetter c \<or> c = CHR ''_'')"

definition isSpaceClass :: "char \<Rightarrow> bool" where
  "isSpaceClass c = (byte c = 9 \<or> byte c = 10 \<or> byte c = 12 \<or> byte c = 13 \<or> byte c = 32)"

text \<open>\<open>^[\w\s\-\&]+$\<close>\<close>

definition matchRetailer :: "string \<Rightarrow> bool" where
  "matchRetailer s =
     (s \<noteq> [] \<and> list_all (\<lambda>c. isWord c \<or> isSpaceClass c \<or> c = CHR ''-'' \<or> c = CHR ''&'') s)"

text \<open>\<open>^[\w\s\-]+$\<close>\<close>

definition matchDescription :: "string \<Rightarrow> bool" where
  "matchDescription s =
     (s \<noteq> [] \<and> list_all (\<lambda>c. isWord c \<or> isSpaceClass c \<or> c = CHR ''-'') s)"

text \<open>\<open>^\d+\.\d{2}$\<close>\<close>

definition matchDecimal :: "string \<Rightarrow> bool" where
  "matchDecimal s =
     (takeWhile isDigit s \<noteq> [] \<and>
      (case dropWhile isDigit s of
         [p, a, b] \<Rightarrow> p = CHR ''.'' \<and> isDigit a \<and> isDigit b
       | _ \<Rightarrow> False))"

section \<open>The receipt processor\<close>

record Item =
  ShortDescription :: string
  Price :: string

record Receipt =
  ID :: string
  Retailer :: string
  PurchaseDate :: string
  PurchaseTime :: string
  Items :: "Item list"
  Total :: string
  Points :: go_int
  Breakdown :: "string list"

text \<open>
  \<open>countAlphanumeric\<close> ranges over the runes of the string and counts the ASCII letters
  and digits. Every byte of a rune beyond ASCII is 128 or more, so counting the bytes that
  are ASCII letters or digits counts the same.
\<close>

definition countAlphanumeric :: "string \<Rightarrow> go_int" where
  "countAlphanumeric s =
     fold (\<lambda>char count.
             if isLowerLetter char \<or> isUpperLetter char \<or> isDigit char then count + 1
             else count) s 0"

text \<open>The constants \<open>0.2\<close> and \<open>0.25\<close>, converted to float64 by the compiler.\<close>

definition const_0_2 :: float64 where
  "const_0_2 = roundFloat64 False (2 / 10)"

definition const_0_25 :: float64 where
  "const_0_25 = roundFloat64 False (25 / 100)"

text \<open>The breakdown lines that \<open>fmt.Sprintf\<close> builds.\<close>

definition sprintf_retailer :: "go_int \<Rightarrow> string \<Rightarrow> string" where
  "sprintf_retailer retailerPoints retailer =
     fmt_d (sint retailerPoints) @ '' points - retailer name ('' @ retailer @ '') has '' @
     fmt_d (sint retailerPoints) @ '' alphanumeric characters''"

definition sprintf_items :: "go_int \<Rightarrow> nat \<Rightarrow> nat \<Rightarrow> string" where
  "sprintf_items itemPoints n pairs =
     fmt_d (sint itemPoints) @ '' points - '' @ fmt_d (int n) @ '' items ('' @
     fmt_d (int pairs) @ '' pairs @ 5 points each)''"

definition sprintf_description ::
  "go_int \<Rightarrow> string \<Rightarrow> nat \<Rightarrow> float64 \<Rightarrow> float64 \<Rightarrow> string" where
  "sprintf_description itemPoints desc descLength price totalPrice =
     fmt_d (sint itemPoints) @ '' points - '' @ [CHR 0x22] @ desc @ [CHR 0x22] @ '' is '' @
     fmt_d (int descLength) @ '' characters (a multiple of 3), item price '' @
     fmt_f2 price @ '' * 0.2 = '' @ fmt_f2 totalPrice @ '' which is rounded to: '' @
     fmt_d (sint itemPoints) @ '' points''"

text \<open>
  The body of the loop of rule 5, on the running \<open>points\<close> and \<open>breakdown\<close>. The
  error of \<open>ParseFloat\<close> is dropped, as in the source.
\<close>

definition rule5 ::
  "(float64 \<Rightarrow> go_int) \<Rightarrow> Item \<Rightarrow> go_int \<times> string list \<Rightarrow> go_int \<times> string list" where
  "rule5 conv item acc =
     (case acc of
        (points, breakdown) \<Rightarrow>
          let price = fst (ParseFloat (Price item));
              descLength = length (TrimSpace (ShortDescription item))
          in if descLength mod 3 = 0 then
               let totalPrice = f64_mul price const_0_2;
                   itemPoints = int_of_float64 conv (Ceil totalPrice)
               in (points + itemPoints,
                   breakdown @
                   [sprintf_description itemPoints (TrimSpace (ShortDescription item))
                      descLength price totalPrice])
             else (points, breakdown))"

text \<open>
  \<open>calculatePoints\<close>: the seven rules in order, each adding to \<open>points\<close> and appending
  to \<open>breakdown\<close>. The errors of the parsers are dropped; the call of \<open>log.Printf\<close>
  changes nothing that the function returns.
\<close>

definition calculatePoints :: "(float64 \<Rightarrow> go_int) \<Rightarrow> Receipt \<Rightarrow> go_int \<times> string list" where
  "calculatePoints conv receipt =
     (let points = 0;
          breakdown = [];
          retailerPoints = countAlphanumeric (Retailer receipt);
          points = points + retailerPoints;
          breakdown = breakdown @ [sprintf_retailer retailerPoints (Retailer receipt)];
          total = fst (ParseFloat (Total receipt));
          (points, breakdown) =
            (if f64_eq total (float64_of_int (int_of_float64 conv total))
             then (points + 50,
                   breakdown @ [''50 points - total is a round dollar amount with no cents''])
             else (points, breakdown));
          (points, breakdown) =
            (if f64_eq (Mod total const_0_25) (Finite False 0)
             then (points + 25, breakdown @ [''25 points - total is a multiple of 0.25''])
             else (points, breakdown));
          itemPoints = word_of_nat (length (Items receipt) div 2) * 5;
          points = points + itemPoints;
          breakdown = breakdown @
            [sprintf_items itemPoints (length (Items receipt)) (length (Items receipt) div 2)];
          (points, breakdown) = fold (rule5 conv) (Items receipt) (points, breakdown);
          date = fst (time_Parse layout_2006_01_02 (PurchaseDate receipt));
          (points, breakdown) =
            (if Day date mod 2 \<noteq> 0
             then (points + 6, breakdown @ [''6 points - purchase day is odd''])
             else (points, breakdown));
          time = fst (time_Parse layout_15_04 (PurchaseTime receipt));
          (points, breakdown) =
            (if Hour time = 14 \<or> Hour time = 15
             then (points + 10,
                   breakdown @ [''10 points - purchase time is between 2:00pm and 4:00pm''])
             else (points, breakdown))
      in (points, breakdown))"

text \<open>
  \<open>validateReceipt\<close> returns the message of the first check that fails (the argument of
  \<open>errors.New\<close>), or \<open>None\<close> for \<open>nil\<close>. \<open>validateItems\<close> is its loop over the items.
\<close>

fun validateItems :: "Item list \<Rightarrow> string option" where
  "validateItems [] = None"
| "validateItems (item # items) =
     (if ShortDescription item = [] then Some ''item shortDescription is invalid''
      else if \<not> matchDescription (ShortDescription item)
        then Some ''item shortDescription is invalid''
      else if \<not> matchDecimal (Price item)
        then Some ''item price must be a valid decimal number''
      else validateItems items)"

definition validateReceipt :: "Receipt \<Rightarrow> string option" where
  "validateReceipt receipt =
     (if Retailer receipt = [] then Some ''retailer name is invalid''
      else if \<not> matchRetailer (Retailer receipt) then Some ''retailer name is invalid''
      else if snd (time_Parse layout_2006_01_02 (PurchaseDate receipt)) \<noteq> None
        then Some ''purchaseDate must be in YYYY-MM-DD format''
      else if snd (time_Parse layout_15_04 (PurchaseTime receipt)) \<noteq> None
        then Some ''purchaseTime must be in HH:mm 24-hour format''
      else if length (Items receipt) < 1 then Some ''items array must have at least one item''
      else
        (case validateItems (Items receipt) of
           Some err \<Rightarrow> Some err
         | None \<Rightarrow>
             if \<not> matchDecimal (Total receipt) then Some ''total must be a valid decimal number''
             else None))"

text \<open>The receipt of the project's documentation, with the items of its reference payload.\<close>

definition reference_receipt :: Receipt where
  "reference_receipt =
     \<lparr>ID = [], Retailer = ''Target'', PurchaseDate = ''2022-01-01'', PurchaseTime = ''13:01'',
      Items =
        [\<lparr>ShortDescription = ''Mountain Dew 12PK'', Price = ''6.49''\<rparr>,
         \<lparr>ShortDescription = ''Emils Cheese Pizza'', Price = ''12.25''\<rparr>,
         \<lparr>ShortDescription = ''Knorr Creamy Chicken'', Price = ''1.26''\<rparr>,
         \<lparr>ShortDescription = ''Doritos Nacho Cheese'', Price = ''3.35''\<rparr>,
         \<lparr>ShortDescription = ''   Klarbrunn 12-PK 12 FL OZ  '', Price = ''12.00''\<rparr>],
      Total = ''35.35'', Points = 0, Breakdown = []\<rparr>"

section \<open>The rules in closed form\<close>

text \<open>
  The conditions and contributions of the rules, as functions of the receipt. Rules 2 and
  3 are predicates of the float64 that the total parses to.
\<close>

definition roundDollar :: "(float64 \<Rightarrow> go_int) \<Rightarrow> float64 \<Rightarrow> bool" where
  "roundDollar conv x = f64_eq x (float64_of_int (int_of_float64 conv x))"

definition quarterMultiple :: "float64 \<Rightarrow> bool" where
  "quarterMultiple x = f64_eq (Mod x const_0_25) (Finite False 0)"

definition qualifies :: "Item \<Rightarrow> bool" where
  "qualifies item = (length (TrimSpace (ShortDescription item)) mod 3 = 0)"

definition itemPoints :: "(float64 \<Rightarrow> go_int) \<Rightarrow> Item \<Rightarrow> go_int" where
  "itemPoints conv item =
     int_of_float64 conv (Ceil (f64_mul (fst (ParseFloat (Price item))) const_0_2))"

definition itemLine :: "(float64 \<Rightarrow> go_int) \<Rightarrow> Item \<Rightarrow> string" where
  "itemLine conv item =
     sprintf_description (itemPoints conv item) (TrimSpace (ShortDescription item))
       (length (TrimSpace (ShortDescription item))) (fst (ParseFloat (Price item)))
       (f64_mul (fst (ParseFloat (Price item))) const_0_2)"

definition oddDay :: "Receipt \<Rightarrow> bool" where
  "oddDay r = (Day (fst (time_Parse layout_2006_01_02 (PurchaseDate r))) mod 2 \<noteq> 0)"

definition afternoon :: "Receipt \<Rightarrow> bool" where
  "afternoon r =
     (Hour (fst (time_Parse layout_15_04 (PurchaseTime r))) = 14 \<or>
      Hour (fst (time_Parse layout_15_04 (PurchaseTime r))) = 15)"

definition line_round :: string where
  "line_round = ''50 points - total is a round dollar amount with no cents''"

definition line_quarter :: string where
  "line_quarter = ''25 points - total is a multiple of 0.25''"

definition line_odd :: string where
  "line_odd = ''6 points - purchase day is odd''"

definition line_afternoon :: string where
  "line_afternoon = ''10 points - purchase time is between 2:00pm and 4:00pm''"

text \<open>
  A reader of the breakdown parses the integer at the head of a line, the \<open>{n}\<close> of
  \<open>{n} points\<close>: the characters before the first space, an optional minus sign and
  decimal digits.
\<close>

definition decimalValue :: "string \<Rightarrow> nat" where
  "decimalValue s = foldl (\<lambda>x c. x * 10 + digitVal c) 0 s"

definition leadingPoints :: "string \<Rightarrow> int" where
  "leadingPoints line =
     (let tok = takeWhile (\<lambda>c. c \<noteq> CHR '' '') line
      in if tok \<noteq> [] \<and> hd tok = CHR ''-'' then - int (decimalValue (tl tok))
         else int (decimalValue tok))"

text \<open>
  What follows the integer at the head of a line, cut after eleven characters: it tells
  the lines of the rules apart.
\<close>

definition lineTag :: "string \<Rightarrow> string" where
  "lineTag line = take 11 (dropWhile (\<lambda>c. c \<noteq> CHR '' '') line)"

text \<open>
  The checks of the validator in their order, each with the reason given when it fails,
  and the reason of the first check of a list that fails.
\<close>

definition itemChecks :: "Item \<Rightarrow> (bool \<times> string) list" where
  "itemChecks item =
     [(ShortDescription item \<noteq> [] \<and> matchDescription (ShortDescription item),
       ''item shortDescription is invalid''),
      (matchDecimal (Price item), ''item price must be a valid decimal number'')]"

definition checks :: "Receipt \<Rightarrow> (bool \<times> string) list" where
  "checks r =
     [(Retailer r \<noteq> [] \<and> matchRetailer (Retailer r), ''retailer name is invalid''),
      (snd (time_Parse layout_2006_01_02 (PurchaseDate r)) = None,
       ''purchaseDate must be in YYYY-MM-DD format''),
      (snd (time_Parse layout_15_04 (PurchaseTime r)) = None,
       ''purchaseTime must be in HH:mm 24-hour format''),
      (Items r \<noteq> [], ''items array must have at least one item'')] @
     concat (map itemChecks (Items r)) @
     [(matchDecimal (Total r), ''total must be a valid decimal number'')]"

definition firstFailure :: "(bool \<times> string) list \<Rightarrow> string option" where
  "firstFailure cs = map_option snd (find (\<lambda>c. \<not> fst c) cs)"

text \<open>The characters a retailer name may hold, written out.\<close>

definition retailerChars :: string where
  "retailerChars =
     ''0123456789ABCDEFGHIJKLMNOPQRSTUVWXYZabcdefghijklmnopqrstuvwxyz_-& '' @
     [CHR 0x09, CHR 0x0A, CHR 0x0C, CHR 0x0D]"

text \<open>
  The strings that the time check lets through: one or two digits of hour below 24, a
  colon, two digits of minute below 60.
\<close>

definition validClock :: "string \<Rightarrow> bool" where
  "validClock s =
     (case s of
        [h, c, m1, m2] \<Rightarrow>
          isDigit h \<and> c = CHR '':'' \<and> isDigit m1 \<and> isDigit m2 \<and>
          digitVal m1 * 10 + digitVal m2 < 60
      | [h1, h2, c, m1, m2] \<Rightarrow>
          isDigit h1 \<and> isDigit h2 \<and> c = CHR '':'' \<and> isDigit m1 \<and> isDigit m2 \<and>
          digitVal h1 * 10 + digitVal h2 < 24 \<and> digitVal m1 * 10 + digitVal m2 < 60
      | _ \<Rightarrow> False)"

text \<open>Receipts that pass the validator and show its corners.\<close>

definition overflow_receipt :: Receipt where
  "overflow_receipt =
     \<lparr>ID = [], Retailer = ''A'', PurchaseDate = ''2022-01-02'', PurchaseTime = ''13:01'',
      Items =
        [\<lparr>ShortDescription = ''abc'', Price = ''40000000000000000000.00''\<rparr>,
         \<lparr>ShortDescription = ''abc'', Price = ''40000000000000000000.00''\<rparr>],
      Total = ''1.10'', Points = 0, Breakdown = []\<rparr>"

definition blank_receipt :: Receipt where
  "blank_receipt =
     \<lparr>ID = [], Retailer = ''A'', PurchaseDate = ''2022-01-02'', PurchaseTime = ''13:01'',
      Items = [\<lparr>ShortDescription = '' '', Price = ''5.00''\<rparr>],
      Total = ''5.10'', Points = 0, Breakdown = []\<rparr>"

definition underscore_receipt :: Receipt where
  "underscore_receipt = reference_receipt\<lparr>Retailer := ''a_b''\<rparr>"

definition short_hour_receipt :: Receipt where
  "short_hour_receipt = reference_receipt\<lparr>PurchaseTime := ''9:05''\<rparr>"

text \<open>A receipt that the validator rejects: its total is no number, one price is negative.\<close>

definition unvalidated_receipt :: Receipt where
  "unvalidated_receipt =
     \<lparr>ID = [], Retailer = ''A'', PurchaseDate = ''2022-01-02'', PurchaseTime = ''13:01'',
      Items = [\<lparr>ShortDescription = ''abc'', Price = ''-1000.00''\<rparr>],
      Total = ''abc'', Points = 0, Breakdown = []\<rparr>"

section \<open>Evaluation\<close>

lemma floor_rat_numeral_div [simp]:
  "\<lfloor>numeral a / numeral b :: rat\<rfloor> = numeral a div numeral b"
  using floor_divide_of_int_eq [of "numeral a" "numeral b", where ?'a = rat] by simp

lemma floor_rat_one_div [simp]: "\<lfloor>1 / numeral b :: rat\<rfloor> = 1 div numeral b"
  using floor_divide_of_int_eq [of 1 "numeral b", where ?'a = rat] by simp

lemma ceiling_rat_numeral_div [simp]:
  "\<lceil>numeral a / numeral b :: rat\<rceil> = - (- numeral a div numeral b)"
  using floor_divide_of_int_eq [of "- numeral a" "numeral b", where ?'a = rat]
  by (simp add: ceiling_def)

lemma ceiling_rat_one_div [simp]: "\<lceil>1 / numeral b :: rat\<rceil> = - (- 1 div numeral b)"
  using floor_divide_of_int_eq [of "- 1" "numeral b", where ?'a = rat]
  by (simp add: ceiling_def)

lemmas char_defs = byte_def isDigit_def isLowerLetter_def isUpperLetter_def digitVal_def
  digitChar_def lower_def isWord_def isSpaceClass_def

lemmas fmt_defs = fmt_d_def fmt_f2_def digits.simps sprintf_retailer_def sprintf_items_def
  sprintf_description_def

lemmas float_defs = roundFloat64_def floorLog2_def bitLen.simps roundHalfEven_def scale2_def
  scale10_def float64_of_int_def int_of_float64_def const_0_2_def const_0_25_def

lemmas ParseFloat_defs = ParseFloat_def special_def readFloat_def readExponent_def
  infinityWord_def commonPrefixLenIgnoreCase_def underscoreOK_def

lemmas time_defs = time_Parse_def layout_2006_01_02_def layout_15_04_def getnum_def atoi_def
  leadingInt_def daysIn_def isLeap_def zeroTime_def

lemmas trim_defs = TrimSpace_def spaceEncodings_def spaceWidth_def trimLeft.simps

lemmas match_defs = matchRetailer_def matchDescription_def matchDecimal_def

lemmas receipt_defs = reference_receipt_def overflow_receipt_def blank_receipt_def
  underscore_receipt_def short_hour_receipt_def unvalidated_receipt_def

lemmas rule_defs = roundDollar_def quarterMultiple_def qualifies_def itemPoints_def
  itemLine_def oddDay_def afternoon_def line_round_def line_quarter_def line_odd_def
  line_afternoon_def

lemmas calc_defs = calculatePoints_def rule5_def countAlphanumeric_def ParseFloat_defs
  float_defs time_defs trim_defs char_defs fmt_defs Let_def

lemmas validate_defs = validateReceipt_def match_defs time_defs char_defs Let_def

subsection \<open>The loop of rule 5 and the whole function, rule by rule\<close>

lemma fold_rule5:
  "fold (rule5 conv) items (p, b) =
     (p + sum_list (map (itemPoints conv) (filter qualifies items)),
      b @ map (itemLine conv) (filter qualifies items))"
  by (induction items arbitrary: p b)
     (simp_all add: rule5_def qualifies_def itemPoints_def itemLine_def Let_def)

lemma calculatePoints_closed:
  "calculatePoints conv r =
     (countAlphanumeric (Retailer r) +
      (if roundDollar conv (fst (ParseFloat (Total r))) then 50 else 0) +
      (if quarterMultiple (fst (ParseFloat (Total r))) then 25 else 0) +
      word_of_nat (length (Items r) div 2) * 5 +
      sum_list (map (itemPoints conv) (filter qualifies (Items r))) +
      (if oddDay r then 6 else 0) +
      (if afternoon r then 10 else 0),
      [sprintf_retailer (countAlphanumeric (Retailer r)) (Retailer r)] @
      (if roundDollar conv (fst (ParseFloat (Total r))) then [line_round] else []) @
      (if quarterMultiple (fst (ParseFloat (Total r))) then [line_quarter] else []) @
      [sprintf_items (word_of_nat (length (Items r) div 2) * 5) (length (Items r))
         (length (Items r) div 2)] @
      map (itemLine conv) (filter qualifies (Items r)) @
      (if oddDay r then [line_odd] else []) @
      (if afternoon r then [line_afternoon] else []))"
  by (simp add: calculatePoints_def fold_rule5 roundDollar_def quarterMultiple_def oddDay_def
      afternoon_def line_round_def line_quarter_def line_odd_def line_afternoon_def Let_def)

subsection \<open>The reference receipt\<close>

lemma validate_reference: "validateReceipt reference_receipt = None"
  by (simp add: reference_receipt_def validate_defs)

lemma calculate_reference:
  "calculatePoints conv reference_receipt =
     (28,
      [''6 points - retailer name (Target) has 6 alphanumeric characters'',
       ''10 points - 5 items (2 pairs @ 5 points each)'',
       ''3 points - '' @ [CHR 0x22] @ ''Emils Cheese Pizza'' @ [CHR 0x22] @
       '' is 18 characters (a multiple of 3), item price 12.25 * 0.2 = 2.45 which is rounded to: 3 points'',
       ''3 points - '' @ [CHR 0x22] @ ''Klarbrunn 12-PK 12 FL OZ'' @ [CHR 0x22] @
       '' is 24 characters (a multiple of 3), item price 12.00 * 0.2 = 2.40 which is rounded to: 3 points'',
       ''6 points - purchase day is odd''])"
  by (simp add: reference_receipt_def calc_defs)

text \<open>
  C1: for the reference receipt (retailer Target, its five items, total 35.35, bought on
  2022-01-01 at 13:01) \<open>calculatePoints\<close> returns 28 points and five breakdown lines:
  6 for the retailer's alphanumeric characters, 10 for two pairs of items, 3 for
  "Emils Cheese Pizza" (18 characters), 3 for "Klarbrunn 12-PK 12 FL OZ" (24 characters
  after trimming) and 6 for the odd day; no line for a round dollar total, a multiple of
  0.25 or the time of day.
\<close>

theorem C1_reference_receipt:
  "calculatePoints conv reference_receipt =
     (28,
      [''6 points - retailer name (Target) has 6 alphanumeric characters'',
       ''10 points - 5 items (2 pairs @ 5 points each)'',
       ''3 points - '' @ [CHR 0x22] @ ''Emils Cheese Pizza'' @ [CHR 0x22] @
       '' is 18 characters (a multiple of 3), item price 12.25 * 0.2 = 2.45 which is rounded to: 3 points'',
       ''3 points - '' @ [CHR 0x22] @ ''Klarbrunn 12-PK 12 FL OZ'' @ [CHR 0x22] @
       '' is 24 characters (a multiple of 3), item price 12.00 * 0.2 = 2.40 which is rounded to: 3 points'',
       ''6 points - purchase day is odd''])"
  by (rule calculate_reference)

theorem C1_reference_receipt_witness:
  "fst (calculatePoints conv_amd64 reference_receipt) = 28 \<and>
   length (snd (calculatePoints conv_amd64 reference_receipt)) = 5"
  using C1_reference_receipt [of conv_amd64] by simp

subsection \<open>The integer at the head of a breakdown line\<close>

lemma digitChar_props:
  assumes "d < 10"
  shows "isDigit (digitChar d)" and "digitVal (digitChar d) = d"
    and "digitChar d \<noteq> CHR '' ''" and "digitChar d \<noteq> CHR ''-''"
proof -
  from assms have "d = 0 \<or> d = 1 \<or> d = 2 \<or> d = 3 \<or> d = 4 \<or> d = 5 \<or> d = 6 \<or> d = 7 \<or> d = 8 \<or> d = 9"
    by arith
  then show "isDigit (digitChar d)" and "digitVal (digitChar d) = d"
    and "digitChar d \<noteq> CHR '' ''" and "digitChar d \<noteq> CHR ''-''"
    by (auto simp: char_defs)
qed

lemma digits_nonempty: "digits n \<noteq> []"
  by (subst digits.simps) simp

lemma digits_isDigit: "c \<in> set (digits n) \<Longrightarrow> isDigit c"
proof (induction n arbitrary: c rule: digits.induct)
  case (1 n)
  show ?case
  proof (cases "n < 10")
    case True
    with "1.prems" show ?thesis
      by (subst (asm) digits.simps) (simp add: digitChar_props)
  next
    case False
    with "1.prems" have "c \<in> set (digits (n div 10)) \<or> c = digitChar (n mod 10)"
      by (subst (asm) digits.simps) auto
    with False "1.IH" show ?thesis
      by (auto simp: digitChar_props)
  qed
qed

lemma decimalValue_snoc: "decimalValue (xs @ [c]) = decimalValue xs * 10 + digitVal c"
  by (simp add: decimalValue_def)

lemma decimalValue_digits: "decimalValue (digits n) = n"
proof (induction n rule: digits.induct)
  case (1 n)
  show ?case
  proof (cases "n < 10")
    case True
    then show ?thesis
      by (subst digits.simps) (simp add: decimalValue_def digitChar_props)
  next
    case False
    with "1.IH" have "decimalValue (digits (n div 10)) = n div 10" by simp
    with False show ?thesis
      by (subst digits.simps) (simp add: decimalValue_snoc digitChar_props)
  qed
qed

lemma isDigit_not_space: "isDigit c \<Longrightarrow> c \<noteq> CHR '' ''"
  by (auto simp: char_defs)

lemma isDigit_not_minus: "isDigit c \<Longrightarrow> c \<noteq> CHR ''-''"
  by (auto simp: char_defs)

lemma fmt_d_no_space: "c \<in> set (fmt_d i) \<Longrightarrow> c \<noteq> CHR '' ''"
  by (auto simp: fmt_d_def dest: digits_isDigit isDigit_not_space split: if_splits)

lemma token_fmt_d:
  "takeWhile (\<lambda>c. c \<noteq> CHR '' '') (fmt_d i @ CHR '' '' # rest) = fmt_d i"
  by (simp add: takeWhile_append2 fmt_d_no_space)

lemma hd_digits_not_minus: "hd (digits n) \<noteq> CHR ''-''"
  using digits_nonempty [of n] digits_isDigit [of "hd (digits n)" n]
  by (auto dest: isDigit_not_minus)

lemma leadingPoints_fmt_d: "leadingPoints (fmt_d i @ CHR '' '' # rest) = i"
proof (cases "i < 0")
  case True
  then show ?thesis
    by (simp add: leadingPoints_def token_fmt_d) (simp add: fmt_d_def decimalValue_digits)
next
  case False
  then show ?thesis
    by (simp add: leadingPoints_def token_fmt_d)
       (simp add: fmt_d_def decimalValue_digits digits_nonempty hd_digits_not_minus)
qed

lemma leadingPoints_lines:
  "leadingPoints (sprintf_retailer x s) = sint x"
  "leadingPoints (sprintf_items x n k) = sint x"
  "leadingPoints (sprintf_description x d l p t) = sint x"
  "leadingPoints line_round = 50"
  "leadingPoints line_quarter = 25"
  "leadingPoints line_odd = 6"
  "leadingPoints line_afternoon = 10"
  by (simp_all add: sprintf_retailer_def sprintf_items_def sprintf_description_def
      leadingPoints_fmt_d)
     (simp_all add: leadingPoints_def decimalValue_def char_defs line_round_def line_quarter_def
      line_odd_def line_afternoon_def)

lemma sum_item_lines:
  "sum_list (map ((\<lambda>l. word_of_int (leadingPoints l)) \<circ> itemLine conv) items) =
   sum_list (map (itemPoints conv) items)"
  by (induction items) (simp_all add: itemLine_def leadingPoints_lines)

lemma word_of_int_sum_list:
  "(word_of_int (sum_list xs) :: go_int) = sum_list (map word_of_int xs)"
  by (induction xs) simp_all

lemma points_sum_words:
  "fst (calculatePoints conv r) =
     sum_list (map (\<lambda>l. word_of_int (leadingPoints l)) (snd (calculatePoints conv r)))"
  by (simp add: calculatePoints_closed leadingPoints_lines sum_item_lines)

lemma validate_overflow: "validateReceipt overflow_receipt = None"
  by (simp add: overflow_receipt_def validate_defs)

lemma calculate_overflow:
  "calculatePoints conv_amd64 overflow_receipt =
     (- 2446744073709551610,
      [''1 points - retailer name (A) has 1 alphanumeric characters'',
       ''5 points - 2 items (1 pairs @ 5 points each)'',
       ''8000000000000000000 points - '' @ [CHR 0x22] @ ''abc'' @ [CHR 0x22] @
       '' is 3 characters (a multiple of 3), item price 40000000000000000000.00 * 0.2 = 8000000000000000000.00 which is rounded to: 8000000000000000000 points'',
       ''8000000000000000000 points - '' @ [CHR 0x22] @ ''abc'' @ [CHR 0x22] @
       '' is 3 characters (a multiple of 3), item price 40000000000000000000.00 * 0.2 = 8000000000000000000.00 which is rounded to: 8000000000000000000 points''])"
  by (simp add: overflow_receipt_def calc_defs)

text \<open>
  C2, as stated, fails: the points are a 64-bit integer and wrap around. A receipt that
  passes the validator with two items of price 40000000000000000000.00 earns
  8000000000000000000 points for each; the lines of its breakdown add up to
  16000000000000000006, the points returned are -2446744073709551610.
\<close>

theorem C2_counterexample:
  "validateReceipt overflow_receipt = None \<and>
   sint (fst (calculatePoints conv_amd64 overflow_receipt)) = - 2446744073709551610 \<and>
   sum_list (map leadingPoints (snd (calculatePoints conv_amd64 overflow_receipt))) =
     16000000000000000006"
  by (simp add: validate_overflow calculate_overflow)
     (simp add: leadingPoints_def decimalValue_def char_defs)

lemma sint_word_of_int_fits:
  "- (2 ^ 63) \<le> k \<Longrightarrow> k < 2 ^ 63 \<Longrightarrow> sint (word_of_int k :: go_int) = k"
  using signed_take_bit_int_eq_self [of 63 k] by (simp add: sint_sbintrunc')

text \<open>
  C2, amended: for every receipt that passes \<open>validateReceipt\<close>, the points returned by
  \<open>calculatePoints\<close> are the sum of the integers at the head of the breakdown lines,
  reduced to the 64-bit integer type (equal modulo \<open>2^64\<close>); they are that sum itself
  whenever the sum fits the type.
\<close>

theorem C2_points_sum:
  assumes "validateReceipt r = None"
  shows "fst (calculatePoints conv r) =
           word_of_int (sum_list (map leadingPoints (snd (calculatePoints conv r)))) \<and>
         (- (2 ^ 63) \<le> sum_list (map leadingPoints (snd (calculatePoints conv r))) \<and>
          sum_list (map leadingPoints (snd (calculatePoints conv r))) < 2 ^ 63 \<longrightarrow>
          sint (fst (calculatePoints conv r)) =
            sum_list (map leadingPoints (snd (calculatePoints conv r))))"
proof -
  have eq: "fst (calculatePoints conv r) =
           word_of_int (sum_list (map leadingPoints (snd (calculatePoints conv r))))"
    using points_sum_words [of conv r] by (simp only: word_of_int_sum_list map_map comp_def)
  show ?thesis
  proof (rule conjI [OF eq], rule impI, erule conjE)
    assume "- (2 ^ 63) \<le> sum_list (map leadingPoints (snd (calculatePoints conv r)))"
      and "sum_list (map leadingPoints (snd (calculatePoints conv r))) < 2 ^ 63"
    then have "sint (word_of_int (sum_list (map leadingPoints (snd (calculatePoints conv r)))) :: go_int) =
      sum_list (map leadingPoints (snd (calculatePoints conv r)))"
      by (rule sint_word_of_int_fits)
    with eq show "sint (fst (calculatePoints conv r)) =
            sum_list (map leadingPoints (snd (calculatePoints conv r)))"
      by (simp only:)
  qed
qed

lemma sum_reference:
  "sum_list (map leadingPoints (snd (calculatePoints conv reference_receipt))) = 28"
  by (simp add: calculate_reference) (simp add: leadingPoints_def decimalValue_def char_defs)

theorem C2_points_sum_witness:
  "validateReceipt reference_receipt = None \<and>
   sum_list (map leadingPoints (snd (calculatePoints conv_amd64 reference_receipt))) = 28 \<and>
   sint (fst (calculatePoints conv_amd64 reference_receipt)) = 28"
  using C2_points_sum [OF validate_reference, of conv_amd64] validate_reference
    sum_reference [of conv_amd64]
  by simp

subsection \<open>Telling the lines apart\<close>

lemma rest_fmt_d:
  "dropWhile (\<lambda>c. c \<noteq> CHR '' '') (fmt_d i @ CHR '' '' # rest) = CHR '' '' # rest"
  by (simp add: dropWhile_append2 fmt_d_no_space)

lemma hd_fmt_d_nat: "fmt_d (int n) = hd (digits n) # tl (digits n)"
  by (simp add: fmt_d_def digits_nonempty)

lemma hd_digits_isDigit: "isDigit (hd (digits n))"
  using digits_nonempty [of n] digits_isDigit [of "hd (digits n)" n] by simp

lemma lineTag_lines:
  "lineTag (sprintf_retailer x s) = '' points - r''"
  "lineTag (sprintf_items x n k) = '' points - '' @ [hd (digits n)]"
  "lineTag (sprintf_description x d l p t) = '' points - '' @ [CHR 0x22]"
  "lineTag line_round = '' points - t''"
  "lineTag line_quarter = '' points - t''"
  "lineTag line_odd = '' points - p''"
  "lineTag line_afternoon = '' points - p''"
  by (simp_all add: lineTag_def sprintf_retailer_def sprintf_items_def sprintf_description_def
      rest_fmt_d hd_fmt_d_nat)
     (simp_all add: line_round_def line_quarter_def line_odd_def line_afternoon_def)

lemma isDigit_not_t: "isDigit c \<Longrightarrow> c \<noteq> CHR ''t''"
  by (auto simp: char_defs)

lemma total_line_not_other:
  assumes "l = line_round \<or> l = line_quarter"
  shows "l \<noteq> sprintf_retailer x s" and "l \<noteq> sprintf_items y n k"
    and "l \<noteq> itemLine conv item" and "l \<noteq> line_odd" and "l \<noteq> line_afternoon"
proof -
  from assms have t: "lineTag l = '' points - t''"
    by (auto simp: lineTag_lines)
  show "l \<noteq> sprintf_retailer x s"
    using t by (auto simp: lineTag_lines)
  show "l \<noteq> sprintf_items y n k"
    using t hd_digits_isDigit [of n] by (auto simp: lineTag_lines dest: isDigit_not_t)
  show "l \<noteq> itemLine conv item"
    using t by (auto simp: lineTag_lines itemLine_def)
  show "l \<noteq> line_odd" and "l \<noteq> line_afternoon"
    using t by (auto simp: lineTag_lines)
qed

lemma round_not_quarter: "line_round \<noteq> line_quarter"
  by (simp add: line_round_def line_quarter_def)

lemma line_round_in_breakdown:
  "line_round \<in> set (snd (calculatePoints conv r)) \<longleftrightarrow>
     roundDollar conv (fst (ParseFloat (Total r)))"
  using total_line_not_other [of line_round] round_not_quarter
  by (auto simp: calculatePoints_closed)

lemma line_quarter_in_breakdown:
  "line_quarter \<in> set (snd (calculatePoints conv r)) \<longleftrightarrow>
     quarterMultiple (fst (ParseFloat (Total r)))"
  using total_line_not_other [of line_quarter] round_not_quarter
  by (auto simp: calculatePoints_closed)

subsection \<open>Rules 2 and 3\<close>

lemma eval_total_10_00:
  "roundDollar conv (fst (ParseFloat ''10.00''))" "quarterMultiple (fst (ParseFloat ''10.00''))"
  by (simp_all add: rule_defs ParseFloat_defs float_defs char_defs Let_def)

lemma eval_total_35_35:
  "\<not> roundDollar conv (fst (ParseFloat ''35.35''))"
  "\<not> quarterMultiple (fst (ParseFloat ''35.35''))"
  by (simp_all add: rule_defs ParseFloat_defs float_defs char_defs Let_def)

text \<open>
  Rule 2 is where the parameter \<open>conv\<close> shows. The total 9223372036854775808.00 passes
  the validator and parses to \<open>2^63\<close>, one more than the greatest \<open>int\<close>: where the
  conversion saturates, the greatest \<open>int\<close> converts back to \<open>2^63\<close> and the rule
  fires; where it gives the least \<open>int\<close>, the rule does not fire.
\<close>

lemma eval_platform_dependent:
  "fst (ParseFloat ''9223372036854775808.00'') = Finite False (2 ^ 63)"
  "roundDollar conv_arm64 (Finite False (2 ^ 63))"
  "\<not> roundDollar conv_amd64 (Finite False (2 ^ 63))"
  by (simp_all add: roundDollar_def conv_arm64_def conv_amd64_def ParseFloat_defs float_defs
      char_defs Let_def)

text \<open>
  C4: \<open>calculatePoints\<close> emits the round-dollar line and adds 50 exactly when the
  float64 parsed from the total equals itself converted to \<open>int\<close> and back, and emits
  the quarter line and adds 25 exactly when \<open>math.Mod\<close> of that float64 and 0.25 is
  zero: both rules test the parsed value, nothing else of the string. The total
  \<open>"10.00"\<close> satisfies both conditions, the total \<open>"35.35"\<close> neither.
\<close>

theorem C4_total_rules:
  "(line_round \<in> set (snd (calculatePoints conv r)) \<longleftrightarrow>
      roundDollar conv (fst (ParseFloat (Total r)))) \<and>
   (line_quarter \<in> set (snd (calculatePoints conv r)) \<longleftrightarrow>
      quarterMultiple (fst (ParseFloat (Total r)))) \<and>
   fst (calculatePoints conv r) =
     countAlphanumeric (Retailer r) +
     (if roundDollar conv (fst (ParseFloat (Total r))) then 50 else 0) +
     (if quarterMultiple (fst (ParseFloat (Total r))) then 25 else 0) +
     word_of_nat (length (Items r) div 2) * 5 +
     sum_list (map (itemPoints conv) (filter qualifies (Items r))) +
     (if oddDay r then 6 else 0) +
     (if afternoon r then 10 else 0) \<and>
   roundDollar conv (fst (ParseFloat ''10.00'')) \<and>
   quarterMultiple (fst (ParseFloat ''10.00'')) \<and>
   \<not> roundDollar conv (fst (ParseFloat ''35.35'')) \<and>
   \<not> quarterMultiple (fst (ParseFloat ''35.35''))"
  using line_round_in_breakdown [of conv r] line_quarter_in_breakdown [of conv r]
    eval_total_10_00 eval_total_35_35
  by (simp add: calculatePoints_closed)

theorem C4_total_rules_witness:
  "line_round \<notin> set (snd (calculatePoints conv_amd64 reference_receipt)) \<and>
   line_quarter \<notin> set (snd (calculatePoints conv_amd64 reference_receipt)) \<and>
   line_round \<in> set (snd (calculatePoints conv_amd64 (reference_receipt\<lparr>Total := ''10.00''\<rparr>))) \<and>
   line_quarter \<in> set (snd (calculatePoints conv_amd64 (reference_receipt\<lparr>Total := ''10.00''\<rparr>)))"
  using C4_total_rules [of conv_amd64 reference_receipt]
    C4_total_rules [of conv_amd64 "reference_receipt\<lparr>Total := ''10.00''\<rparr>"]
  by (simp add: reference_receipt_def)

subsection \<open>The order of the breakdown, and what the result depends on\<close>

text \<open>
  C7: for every receipt that passes \<open>validateReceipt\<close>, the breakdown is, in this order:
  the retailer line of rule 1 (always), the lines of rules 2 and 3 when their conditions
  hold, the pairs line of rule 4 (always), one line of rule 5 for each qualifying item in
  the order of the items, and the lines of rules 6 and 7 when their conditions hold.
\<close>

theorem C7_breakdown_order:
  assumes "validateReceipt r = None"
  shows "snd (calculatePoints conv r) =
     [sprintf_retailer (countAlphanumeric (Retailer r)) (Retailer r)] @
     (if roundDollar conv (fst (ParseFloat (Total r))) then [line_round] else []) @
     (if quarterMultiple (fst (ParseFloat (Total r))) then [line_quarter] else []) @
     [sprintf_items (word_of_nat (length (Items r) div 2) * 5) (length (Items r))
        (length (Items r) div 2)] @
     map (itemLine conv) (filter qualifies (Items r)) @
     (if oddDay r then [line_odd] else []) @
     (if afternoon r then [line_afternoon] else [])"
  by (simp add: calculatePoints_closed)

theorem C7_breakdown_order_witness:
  "validateReceipt reference_receipt = None \<and>
   snd (calculatePoints conv_amd64 reference_receipt) =
     [sprintf_retailer (countAlphanumeric (Retailer reference_receipt))
        (Retailer reference_receipt)] @
     (if roundDollar conv_amd64 (fst (ParseFloat (Total reference_receipt)))
      then [line_round] else []) @
     (if quarterMultiple (fst (ParseFloat (Total reference_receipt)))
      then [line_quarter] else []) @
     [sprintf_items (word_of_nat (length (Items reference_receipt) div 2) * 5)
        (length (Items reference_receipt)) (length (Items reference_receipt) div 2)] @
     map (itemLine conv_amd64) (filter qualifies (Items reference_receipt)) @
     (if oddDay reference_receipt then [line_odd] else []) @
     (if afternoon reference_receipt then [line_afternoon] else [])"
  using C7_breakdown_order [OF validate_reference, of conv_amd64] validate_reference
  by simp

text \<open>
  C9: \<open>calculatePoints\<close> is a function of the receipt's retailer, date, time, items
  and total: for a receipt that passes \<open>validateReceipt\<close>, any receipt that agrees
  with it on these fields (whatever its identifier and stored result) gets the same
  points and the same breakdown, line for line.
\<close>

theorem C9_deterministic:
  assumes "validateReceipt r = None"
    and "Retailer r' = Retailer r" and "PurchaseDate r' = PurchaseDate r"
    and "PurchaseTime r' = PurchaseTime r" and "Items r' = Items r" and "Total r' = Total r"
  shows "calculatePoints conv r' = calculatePoints conv r"
  using assms(2-) by (simp add: calculatePoints_closed oddDay_def afternoon_def)

theorem C9_deterministic_witness:
  "validateReceipt reference_receipt = None \<and>
   calculatePoints conv_amd64
     (reference_receipt\<lparr>ID := ''adb6b560-0eef-42bc-9d16-df48f30e89b2'', Points := 28\<rparr>) =
   calculatePoints conv_amd64 reference_receipt"
  using C9_deterministic [OF validate_reference,
      of "reference_receipt\<lparr>ID := ''adb6b560-0eef-42bc-9d16-df48f30e89b2'', Points := 28\<rparr>"
         conv_amd64]
    validate_reference
  by simp

subsection \<open>The items of rule 5\<close>

lemma validate_blank: "validateReceipt blank_receipt = None"
  by (simp add: blank_receipt_def validate_defs)

lemma calculate_blank:
  "calculatePoints conv_amd64 blank_receipt =
     (2,
      [''1 points - retailer name (A) has 1 alphanumeric characters'',
       ''0 points - 1 items (0 pairs @ 5 points each)'',
       ''1 points - '' @ [CHR 0x22] @ [CHR 0x22] @
       '' is 0 characters (a multiple of 3), item price 5.00 * 0.2 = 1.00 which is rounded to: 1 points''])"
  by (simp add: blank_receipt_def calc_defs)

lemma eval_trim_blank: "TrimSpace '' '' = []"
  by (simp add: trim_defs char_defs)

text \<open>
  C3, as stated, fails: a description of one space passes the validator and trims to the
  empty string, whose length 0 is a multiple of 3; with the price 5.00 the item earns
  1 point and a line of rule 5.
\<close>

theorem C3_counterexample:
  "validateReceipt blank_receipt = None \<and>
   Items blank_receipt = [\<lparr>ShortDescription = '' '', Price = ''5.00''\<rparr>] \<and>
   length (TrimSpace '' '') = 0 \<and>
   calculatePoints conv_amd64 blank_receipt =
     (2,
      [''1 points - retailer name (A) has 1 alphanumeric characters'',
       ''0 points - 1 items (0 pairs @ 5 points each)'',
       ''1 points - '' @ [CHR 0x22] @ [CHR 0x22] @
       '' is 0 characters (a multiple of 3), item price 5.00 * 0.2 = 1.00 which is rounded to: 1 points''])"
  by (simp add: validate_blank calculate_blank eval_trim_blank) (simp add: blank_receipt_def)

text \<open>
  C3, amended: for every receipt that passes \<open>validateReceipt\<close>, the items whose
  trimmed description has a length that is a multiple of 3 (0 included), and only they,
  each add \<open>int(math.Ceil(price * 0.2))\<close> points and one line of rule 5, in the order
  of the items; each item counts by itself. The price \<open>"2.45"\<close> gives 1 point, the
  price \<open>"12.25"\<close> gives 3.
\<close>

theorem C3_item_rule:
  assumes "validateReceipt r = None"
  shows
    "fst (calculatePoints conv r) =
       countAlphanumeric (Retailer r) +
       (if roundDollar conv (fst (ParseFloat (Total r))) then 50 else 0) +
       (if quarterMultiple (fst (ParseFloat (Total r))) then 25 else 0) +
       word_of_nat (length (Items r) div 2) * 5 +
       sum_list (map (itemPoints conv)
         (filter (\<lambda>item. length (TrimSpace (ShortDescription item)) mod 3 = 0) (Items r))) +
       (if oddDay r then 6 else 0) +
       (if afternoon r then 10 else 0) \<and>
     take (length (filter (\<lambda>item. length (TrimSpace (ShortDescription item)) mod 3 = 0) (Items r)))
       (drop (2 + (if roundDollar conv (fst (ParseFloat (Total r))) then 1 else 0) +
                (if quarterMultiple (fst (ParseFloat (Total r))) then 1 else 0))
          (snd (calculatePoints conv r))) =
       map (itemLine conv)
         (filter (\<lambda>item. length (TrimSpace (ShortDescription item)) mod 3 = 0) (Items r)) \<and>
     length (snd (calculatePoints conv r)) =
       2 + (if roundDollar conv (fst (ParseFloat (Total r))) then 1 else 0) +
       (if quarterMultiple (fst (ParseFloat (Total r))) then 1 else 0) +
       length (filter (\<lambda>item. length (TrimSpace (ShortDescription item)) mod 3 = 0) (Items r)) +
       (if oddDay r then 1 else 0) + (if afternoon r then 1 else 0) \<and>
     itemPoints conv \<lparr>ShortDescription = d, Price = ''2.45''\<rparr> = 1 \<and>
     itemPoints conv \<lparr>ShortDescription = d, Price = ''12.25''\<rparr> = 3"
proof -
  have q: "(\<lambda>item. length (TrimSpace (ShortDescription item)) mod 3 = 0) = qualifies"
    by (rule ext) (simp add: qualifies_def)
  have "itemPoints conv \<lparr>ShortDescription = d, Price = ''2.45''\<rparr> = 1"
    and "itemPoints conv \<lparr>ShortDescription = d, Price = ''12.25''\<rparr> = 3"
    by (simp_all add: itemPoints_def ParseFloat_defs float_defs char_defs Let_def)
  then show ?thesis
    unfolding q by (simp add: calculatePoints_closed)
qed

lemma eval_trim_reference:
  "TrimSpace ''Mountain Dew 12PK'' = ''Mountain Dew 12PK''"
  "TrimSpace ''Emils Cheese Pizza'' = ''Emils Cheese Pizza''"
  "TrimSpace ''Knorr Creamy Chicken'' = ''Knorr Creamy Chicken''"
  "TrimSpace ''Doritos Nacho Cheese'' = ''Doritos Nacho Cheese''"
  "TrimSpace ''   Klarbrunn 12-PK 12 FL OZ  '' = ''Klarbrunn 12-PK 12 FL OZ''"
  by (simp_all add: trim_defs char_defs)

lemma eval_filter_reference:
  "filter (\<lambda>item. length (TrimSpace (ShortDescription item)) mod 3 = 0)
     (Items reference_receipt) =
   [\<lparr>ShortDescription = ''Emils Cheese Pizza'', Price = ''12.25''\<rparr>,
    \<lparr>ShortDescription = ''   Klarbrunn 12-PK 12 FL OZ  '', Price = ''12.00''\<rparr>]"
  by (simp add: reference_receipt_def eval_trim_reference)

theorem C3_item_rule_witness:
  "validateReceipt reference_receipt = None \<and>
   filter (\<lambda>item. length (TrimSpace (ShortDescription item)) mod 3 = 0)
     (Items reference_receipt) =
   [\<lparr>ShortDescription = ''Emils Cheese Pizza'', Price = ''12.25''\<rparr>,
    \<lparr>ShortDescription = ''   Klarbrunn 12-PK 12 FL OZ  '', Price = ''12.00''\<rparr>] \<and>
   length (snd (calculatePoints conv_amd64 reference_receipt)) = 5 \<and>
   itemPoints conv_amd64 \<lparr>ShortDescription = ''Emils Cheese Pizza'', Price = ''12.25''\<rparr> = 3"
  using C3_item_rule [OF validate_reference, of conv_amd64 "''Emils Cheese Pizza''"]
    validate_reference eval_filter_reference
    eval_total_35_35
  by (simp add: calculate_reference)

subsection \<open>The validator\<close>

lemma firstFailure_Nil: "firstFailure [] = None"
  by (simp add: firstFailure_def)

lemma firstFailure_Cons:
  "firstFailure ((ok, e) # cs) = (if ok then firstFailure cs else Some e)"
  by (simp add: firstFailure_def)

lemma firstFailure_append:
  "firstFailure (xs @ ys) =
     (case firstFailure xs of None \<Rightarrow> firstFailure ys | Some e \<Rightarrow> Some e)"
  by (induction xs) (auto simp: firstFailure_Nil firstFailure_Cons)

lemma validateItems_checks:
  "validateItems items = firstFailure (concat (map itemChecks items))"
  by (induction items)
     (simp_all add: firstFailure_Nil firstFailure_Cons firstFailure_append itemChecks_def)

lemma validateReceipt_checks: "validateReceipt r = firstFailure (checks r)"
  by (simp add: validateReceipt_def checks_def firstFailure_Cons firstFailure_append
      firstFailure_Nil validateItems_checks matchRetailer_def split: option.splits)

lemma eval_rejects:
  "validateReceipt (reference_receipt\<lparr>Retailer := []\<rparr>) = Some ''retailer name is invalid''"
  "validateReceipt (reference_receipt\<lparr>Retailer := ''Tar$get''\<rparr>) =
     Some ''retailer name is invalid''"
  "validateReceipt (reference_receipt\<lparr>PurchaseDate := ''2022-13-01''\<rparr>) =
     Some ''purchaseDate must be in YYYY-MM-DD format''"
  "validateReceipt (reference_receipt\<lparr>PurchaseTime := ''25:00''\<rparr>) =
     Some ''purchaseTime must be in HH:mm 24-hour format''"
  "validateReceipt (reference_receipt\<lparr>Items := []\<rparr>) =
     Some ''items array must have at least one item''"
  "validateReceipt
     (reference_receipt\<lparr>Items := [\<lparr>ShortDescription = ''Gatorade'', Price = ''6.5''\<rparr>]\<rparr>) =
     Some ''item price must be a valid decimal number''"
  "validateReceipt (reference_receipt\<lparr>Total := ''35''\<rparr>) =
     Some ''total must be a valid decimal number''"
  by (simp_all add: reference_receipt_def validate_defs)

text \<open>
  C6: \<open>validateReceipt\<close> returns the reason of the first check that fails, in the order
  retailer, purchase date, purchase time, items not empty, then for each item in order
  its description and then its price, then the total; the seven reasons are distinct. It
  rejects an empty retailer, a retailer with a dollar sign, the date 2022-13-01, the time
  25:00, an empty list of items, the item price 6.5 and the total 35.
\<close>

theorem C6_fail_fast:
  "validateReceipt r = firstFailure (checks r) \<and>
   distinct
     [''retailer name is invalid'', ''purchaseDate must be in YYYY-MM-DD format'',
      ''purchaseTime must be in HH:mm 24-hour format'',
      ''items array must have at least one item'', ''item shortDescription is invalid'',
      ''item price must be a valid decimal number'', ''total must be a valid decimal number''] \<and>
   validateReceipt (reference_receipt\<lparr>Retailer := []\<rparr>) = Some ''retailer name is invalid'' \<and>
   validateReceipt (reference_receipt\<lparr>Retailer := ''Tar$get''\<rparr>) =
     Some ''retailer name is invalid'' \<and>
   validateReceipt (reference_receipt\<lparr>PurchaseDate := ''2022-13-01''\<rparr>) =
     Some ''purchaseDate must be in YYYY-MM-DD format'' \<and>
   validateReceipt (reference_receipt\<lparr>PurchaseTime := ''25:00''\<rparr>) =
     Some ''purchaseTime must be in HH:mm 24-hour format'' \<and>
   validateReceipt (reference_receipt\<lparr>Items := []\<rparr>) =
     Some ''items array must have at least one item'' \<and>
   validateReceipt
     (reference_receipt\<lparr>Items := [\<lparr>ShortDescription = ''Gatorade'', Price = ''6.5''\<rparr>]\<rparr>) =
     Some ''item price must be a valid decimal number'' \<and>
   validateReceipt (reference_receipt\<lparr>Total := ''35''\<rparr>) =
     Some ''total must be a valid decimal number''"
  using validateReceipt_checks [of r] eval_rejects by simp

theorem C6_fail_fast_witness:
  "firstFailure (checks reference_receipt) = None \<and>
   firstFailure (checks (reference_receipt\<lparr>Retailer := ''Tar$get'', Total := ''35''\<rparr>)) =
     Some ''retailer name is invalid''"
proof -
  have "validateReceipt (reference_receipt\<lparr>Retailer := ''Tar$get'', Total := ''35''\<rparr>) =
     Some ''retailer name is invalid''"
    by (simp add: reference_receipt_def validate_defs)
  then show ?thesis
    using C6_fail_fast [of reference_receipt]
      C6_fail_fast [of "reference_receipt\<lparr>Retailer := ''Tar$get'', Total := ''35''\<rparr>"]
      validate_reference
    by simp
qed

subsection \<open>The retailer check\<close>

lemma retailerChars_bytes:
  "map byte retailerChars =
     [48..<58] @ [65..<91] @ [97..<123] @ [95, 45, 38, 32, 9, 10, 12, 13]"
  by (simp add: retailerChars_def byte_def)

lemma byte_inj: "byte c = byte d \<Longrightarrow> c = d"
  by (simp add: byte_def)

lemma in_retailerChars_iff: "c \<in> set retailerChars \<longleftrightarrow> byte c \<in> set (map byte retailerChars)"
  by (auto dest: byte_inj)

lemma retailer_class:
  "(isWord c \<or> isSpaceClass c \<or> c = CHR ''-'' \<or> c = CHR ''&'') \<longleftrightarrow> c \<in> set retailerChars"
proof -
  have m: "c = CHR ''-'' \<longleftrightarrow> byte c = 45" "c = CHR ''&'' \<longleftrightarrow> byte c = 38"
    "c = CHR ''_'' \<longleftrightarrow> byte c = 95"
    using byte_inj [of c "CHR ''-''"] byte_inj [of c "CHR ''&''"] byte_inj [of c "CHR ''_''"]
    by (auto simp: byte_def)
  show ?thesis
    unfolding in_retailerChars_iff retailerChars_bytes isWord_def isSpaceClass_def isDigit_def
      isUpperLetter_def isLowerLetter_def m
    by (simp only: set_append set_upt list.set insert_iff empty_iff Un_iff atLeastLessThan_iff)
       arith
qed

lemma matchRetailer_chars:
  "matchRetailer s \<longleftrightarrow> s \<noteq> [] \<and> list_all (\<lambda>c. c \<in> set retailerChars) s"
  by (simp add: matchRetailer_def retailer_class)

lemma validateItems_reasons:
  "validateItems items = Some e \<Longrightarrow>
     e = ''item shortDescription is invalid'' \<or> e = ''item price must be a valid decimal number''"
  by (induction items) (auto split: if_splits)

lemma validate_underscore: "validateReceipt underscore_receipt = None"
  by (simp add: underscore_receipt_def reference_receipt_def validate_defs)

text \<open>
  C5, as stated, fails: the class \<open>\w\<close> of the regular expression holds the underscore,
  which is outside \<open>[A-Za-z0-9 \-&]\<close>, and the retailer \<open>a_b\<close> passes.
\<close>

theorem C5_counterexample:
  "Retailer underscore_receipt = ''a_b'' \<and>
   CHR ''_'' \<in> set (Retailer underscore_receipt) \<and>
   CHR ''_'' \<notin> set ''ABCDEFGHIJKLMNOPQRSTUVWXYZabcdefghijklmnopqrstuvwxyz0123456789 -&'' \<and>
   validateReceipt underscore_receipt = None"
  by (simp add: validate_underscore) (simp add: underscore_receipt_def reference_receipt_def)

text \<open>
  C5, amended: \<open>validateReceipt\<close> returns the invalid-retailer reason exactly when the
  retailer is empty or holds a character outside the ASCII letters and digits, the
  underscore, the hyphen, the ampersand, the space, and the tab, line feed, form feed and
  carriage return (the classes \<open>\w\<close> and \<open>\s\<close>); every other retailer passes this
  check.
\<close>

theorem C5_retailer_check:
  "validateReceipt r = Some ''retailer name is invalid'' \<longleftrightarrow>
     Retailer r = [] \<or> \<not> list_all (\<lambda>c. c \<in> set retailerChars) (Retailer r)"
proof (cases "Retailer r = [] \<or> \<not> matchRetailer (Retailer r)")
  case True
  then show ?thesis
    by (auto simp: validateReceipt_def matchRetailer_chars)
next
  case False
  then have ok: "Retailer r \<noteq> []" "list_all (\<lambda>c. c \<in> set retailerChars) (Retailer r)"
    by (simp_all add: matchRetailer_chars)
  have "validateReceipt r \<noteq> Some ''retailer name is invalid''"
    using False validateItems_reasons [of "Items r" "''retailer name is invalid''"]
    by (auto simp: validateReceipt_def split: if_splits option.splits)
  with ok show ?thesis by simp
qed

theorem C5_retailer_check_witness:
  "list_all (\<lambda>c. c \<in> set retailerChars) (Retailer underscore_receipt) \<and>
   validateReceipt underscore_receipt \<noteq> Some ''retailer name is invalid'' \<and>
   \<not> list_all (\<lambda>c. c \<in> set retailerChars) ''Tar$get'' \<and>
   validateReceipt (reference_receipt\<lparr>Retailer := ''Tar$get''\<rparr>) =
     Some ''retailer name is invalid''"
  using C5_retailer_check [of underscore_receipt]
    C5_retailer_check [of "reference_receipt\<lparr>Retailer := ''Tar$get''\<rparr>"]
  by (simp add: underscore_receipt_def reference_receipt_def retailerChars_def)

subsection \<open>The time check\<close>

lemma colon_not_digit: "\<not> isDigit CHR '':''"
  by (simp add: char_defs)

lemma digitVal_less: "isDigit c \<Longrightarrow> digitVal c < 10"
  by (auto simp: char_defs)

lemma parse_clock_iff: "snd (time_Parse layout_15_04 s) = None \<longleftrightarrow> validClock s"
  by (auto simp: time_Parse_def layout_15_04_def getnum_def validClock_def daysIn_def
      isLeap_def zeroTime_def Let_def colon_not_digit
      dest: digitVal_less split: list.splits option.splits if_splits)

lemma validate_short_hour: "validateReceipt short_hour_receipt = None"
  by (simp add: short_hour_receipt_def reference_receipt_def validate_defs)

lemma time_reason_iff:
  "validateReceipt r = Some ''purchaseTime must be in HH:mm 24-hour format'' \<longleftrightarrow>
     Retailer r \<noteq> [] \<and> matchRetailer (Retailer r) \<and>
     snd (time_Parse layout_2006_01_02 (PurchaseDate r)) = None \<and>
     snd (time_Parse layout_15_04 (PurchaseTime r)) \<noteq> None"
  using validateItems_reasons [of "Items r" "''purchaseTime must be in HH:mm 24-hour format''"]
  by (auto simp: validateReceipt_def split: if_splits option.splits)

lemma eval_two_digit_fields:
  "validateReceipt (reference_receipt\<lparr>PurchaseTime := ''13:1''\<rparr>) =
     Some ''purchaseTime must be in HH:mm 24-hour format''"
  "validateReceipt (reference_receipt\<lparr>PurchaseDate := ''2022-1-01''\<rparr>) =
     Some ''purchaseDate must be in YYYY-MM-DD format''"
  "validateReceipt (reference_receipt\<lparr>PurchaseDate := ''2022-01-1''\<rparr>) =
     Some ''purchaseDate must be in YYYY-MM-DD format''"
  by (simp_all add: reference_receipt_def validate_defs)

text \<open>
  C8: the code departs from the claim and from its own message. The reason it gives for a
  rejected time demands the format \<open>HH:mm\<close>, and the minute, the month and the day are
  rejected unless they have two digits; but the layout element \<open>15\<close> reads an hour of one
  or two digits, so the time \<open>9:05\<close>, which is not in the two-digit format, passes the
  time check and the whole validator. (By \<open>parse_clock_iff\<close> a one-digit hour is all
  that passes beyond the two-digit format.)
\<close>

theorem C8_short_hour_accepted:
  "PurchaseTime short_hour_receipt = ''9:05'' \<and> length ''9:05'' = 4 \<and>
   snd (time_Parse layout_15_04 ''9:05'') = None \<and>
   validateReceipt short_hour_receipt = None \<and>
   validateReceipt (reference_receipt\<lparr>PurchaseTime := ''13:1''\<rparr>) =
     Some ''purchaseTime must be in HH:mm 24-hour format'' \<and>
   validateReceipt (reference_receipt\<lparr>PurchaseDate := ''2022-1-01''\<rparr>) =
     Some ''purchaseDate must be in YYYY-MM-DD format'' \<and>
   validateReceipt (reference_receipt\<lparr>PurchaseDate := ''2022-01-1''\<rparr>) =
     Some ''purchaseDate must be in YYYY-MM-DD format''"
  by (simp add: validate_short_hour eval_two_digit_fields)
     (simp add: short_hour_receipt_def reference_receipt_def time_defs char_defs)

subsection \<open>Receipts that were not validated\<close>

lemma ParseFloat_syntax_zero:
  "snd (ParseFloat s) = Some ErrSyntax \<Longrightarrow> fst (ParseFloat s) = Finite False 0"
  by (auto simp: ParseFloat_def Let_def split: option.splits prod.splits if_splits float64.splits)

lemma ParseFloat_range_inf:
  "snd (ParseFloat s) = Some ErrRange \<Longrightarrow> \<exists>neg. fst (ParseFloat s) = Infinity neg"
  by (auto simp: ParseFloat_def Let_def split: option.splits prod.splits if_splits float64.splits)

lemma time_Parse_error_zero:
  "snd (time_Parse layout s) \<noteq> None \<Longrightarrow> fst (time_Parse layout s) = zeroTime"
  by (auto simp: time_Parse_def Let_def split: option.splits if_splits)

lemma eval_const_0_25: "const_0_25 = Finite False (1 / 4)"
  by (simp add: float_defs Let_def)

lemma zero_total_rules:
  "roundDollar conv (Finite False 0)" "quarterMultiple (Finite False 0)"
  by (simp_all add: roundDollar_def quarterMultiple_def eval_const_0_25 int_of_float64_def
      float64_of_int_def roundFloat64_def)

lemma bitLen_le: "n < 2 ^ k \<Longrightarrow> bitLen n \<le> k"
proof (induction k arbitrary: n)
  case 0
  then show ?case by (subst bitLen.simps) simp
next
  case (Suc k)
  then have "n div 2 < 2 ^ k" by auto
  then have "bitLen (n div 2) \<le> k" by (rule Suc.IH)
  then show ?case by (subst bitLen.simps) simp
qed

lemma floorLog2_of_int_le:
  assumes "k \<le> 2 ^ 63"
  shows "floorLog2 (of_int k) \<le> 63"
proof (cases "1 \<le> k")
  case True
  with assms have "nat k < 2 ^ 64" by auto
  then have "bitLen (nat k) \<le> 64" by (rule bitLen_le)
  with True show ?thesis by (simp add: floorLog2_def)
next
  case False
  then show ?thesis by (simp add: floorLog2_def)
qed

lemma roundFloat64_finite:
  "floorLog2 q \<le> 63 \<Longrightarrow> \<exists>s m. roundFloat64 neg q = Finite s m"
  by (simp add: roundFloat64_def Let_def max_def)

lemma float64_of_int_finite: "\<exists>s m. float64_of_int w = Finite s m"
proof -
  have "\<bar>sint w\<bar> \<le> 2 ^ 63"
    using sint_ge [of w] sint_lt [of w] by simp
  then have "floorLog2 (of_int \<bar>sint w\<bar>) \<le> 63"
    by (rule floorLog2_of_int_le)
  then show ?thesis
    unfolding float64_of_int_def by (rule roundFloat64_finite)
qed

lemma infinite_total_rules:
  "\<not> roundDollar conv (Infinity neg)" "\<not> quarterMultiple (Infinity neg)"
  using float64_of_int_finite [of "int_of_float64 conv (Infinity neg)"]
  by (auto simp: roundDollar_def quarterMultiple_def)

lemma isDigit_not_p: "isDigit c \<Longrightarrow> c \<noteq> CHR ''p''"
  by (auto simp: char_defs)

lemma time_line_not_other:
  assumes "l = line_odd \<or> l = line_afternoon"
  shows "l \<noteq> sprintf_retailer x s" and "l \<noteq> sprintf_items y n k"
    and "l \<noteq> itemLine conv item" and "l \<noteq> line_round" and "l \<noteq> line_quarter"
proof -
  from assms have t: "lineTag l = '' points - p''"
    by (auto simp: lineTag_lines)
  show "l \<noteq> sprintf_retailer x s"
    using t by (auto simp: lineTag_lines)
  show "l \<noteq> sprintf_items y n k"
    using t hd_digits_isDigit [of n] by (auto simp: lineTag_lines dest: isDigit_not_p)
  show "l \<noteq> itemLine conv item"
    using t by (auto simp: lineTag_lines itemLine_def)
  show "l \<noteq> line_round" and "l \<noteq> line_quarter"
    using t by (auto simp: lineTag_lines)
qed

lemma odd_not_afternoon: "line_odd \<noteq> line_afternoon"
  by (simp add: line_odd_def line_afternoon_def)

lemma line_odd_in_breakdown:
  "line_odd \<in> set (snd (calculatePoints conv r)) \<longleftrightarrow> oddDay r"
  using time_line_not_other [of line_odd] odd_not_afternoon
  by (auto simp: calculatePoints_closed)

lemma line_afternoon_in_breakdown:
  "line_afternoon \<in> set (snd (calculatePoints conv r)) \<longleftrightarrow> afternoon r"
  using time_line_not_other [of line_afternoon] odd_not_afternoon
  by (auto simp: calculatePoints_closed)

lemma zeroTime_rules:
  "snd (time_Parse layout_2006_01_02 (PurchaseDate r)) \<noteq> None \<Longrightarrow> oddDay r"
  "snd (time_Parse layout_15_04 (PurchaseTime r)) \<noteq> None \<Longrightarrow> \<not> afternoon r"
  by (simp_all add: oddDay_def afternoon_def time_Parse_error_zero) (simp_all add: zeroTime_def)

lemma calculate_unvalidated:
  "calculatePoints conv_amd64 unvalidated_receipt =
     (- 124,
      [''1 points - retailer name (A) has 1 alphanumeric characters'',
       ''50 points - total is a round dollar amount with no cents'',
       ''25 points - total is a multiple of 0.25'',
       ''0 points - 1 items (0 pairs @ 5 points each)'',
       ''-200 points - '' @ [CHR 0x22] @ ''abc'' @ [CHR 0x22] @
       '' is 3 characters (a multiple of 3), item price -1000.00 * 0.2 = -200.00 which is rounded to: -200 points''])"
  by (simp add: unvalidated_receipt_def calc_defs)

lemma eval_total_abc: "ParseFloat ''abc'' = (Finite False 0, Some ErrSyntax)"
  by (simp add: ParseFloat_defs char_defs)

text \<open>
  C10, as stated, fails: with the total \<open>abc\<close> both rules of the total fire, but an item
  with the price -1000.00 earns -200 points, and the receipt gets -124 points, not 75 or
  more.
\<close>

theorem C10_counterexample:
  "Total unvalidated_receipt = ''abc'' \<and>
   ParseFloat ''abc'' = (Finite False 0, Some ErrSyntax) \<and>
   sint (fst (calculatePoints conv_amd64 unvalidated_receipt)) = - 124 \<and>
   sint (fst (calculatePoints conv_amd64 unvalidated_receipt)) < 75"
  by (simp add: calculate_unvalidated eval_total_abc) (simp add: unvalidated_receipt_def)

text \<open>
  C10, amended: \<open>calculatePoints\<close> has a result for every receipt (the model has no
  failing branch: the source indexes nothing and divides by constants only), and the
  errors of its parsers are dropped. A total that is no number (\<open>ErrSyntax\<close>) counts as
  0: both the round-dollar and the quarter line are emitted and 75 points are added to
  the points of the other rules, which may be negative. A total beyond the range of
  float64 (\<open>ErrRange\<close>) counts as an infinity and earns neither line. A date that does
  not parse counts as day 1 and earns the odd-day line; a time that does not parse counts
  as hour 0 and earns no afternoon line.
\<close>

theorem C10_unvalidated:
  "(snd (ParseFloat (Total r)) = Some ErrSyntax \<longrightarrow>
      fst (ParseFloat (Total r)) = Finite False 0 \<and>
      line_round \<in> set (snd (calculatePoints conv r)) \<and>
      line_quarter \<in> set (snd (calculatePoints conv r)) \<and>
      fst (calculatePoints conv r) =
        countAlphanumeric (Retailer r) + 75 + word_of_nat (length (Items r) div 2) * 5 +
        sum_list (map (itemPoints conv) (filter qualifies (Items r))) +
        (if oddDay r then 6 else 0) + (if afternoon r then 10 else 0)) \<and>
   (snd (ParseFloat (Total r)) = Some ErrRange \<longrightarrow>
      (\<exists>neg. fst (ParseFloat (Total r)) = Infinity neg) \<and>
      line_round \<notin> set (snd (calculatePoints conv r)) \<and>
      line_quarter \<notin> set (snd (calculatePoints conv r))) \<and>
   (snd (time_Parse layout_2006_01_02 (PurchaseDate r)) \<noteq> None \<longrightarrow>
      line_odd \<in> set (snd (calculatePoints conv r))) \<and>
   (snd (time_Parse layout_15_04 (PurchaseTime r)) \<noteq> None \<longrightarrow>
      line_afternoon \<notin> set (snd (calculatePoints conv r)))"
proof -
  have "fst (ParseFloat (Total r)) = Finite False 0 \<and>
      line_round \<in> set (snd (calculatePoints conv r)) \<and>
      line_quarter \<in> set (snd (calculatePoints conv r)) \<and>
      fst (calculatePoints conv r) =
        countAlphanumeric (Retailer r) + 75 + word_of_nat (length (Items r) div 2) * 5 +
        sum_list (map (itemPoints conv) (filter qualifies (Items r))) +
        (if oddDay r then 6 else 0) + (if afternoon r then 10 else 0)"
    if "snd (ParseFloat (Total r)) = Some ErrSyntax"
  proof -
    from that have z: "fst (ParseFloat (Total r)) = Finite False 0"
      by (rule ParseFloat_syntax_zero)
    then show ?thesis
      by (simp add: line_round_in_breakdown line_quarter_in_breakdown zero_total_rules
          calculatePoints_closed)
  qed
  moreover have "(\<exists>neg. fst (ParseFloat (Total r)) = Infinity neg) \<and>
      line_round \<notin> set (snd (calculatePoints conv r)) \<and>
      line_quarter \<notin> set (snd (calculatePoints conv r))"
    if "snd (ParseFloat (Total r)) = Some ErrRange"
  proof -
    from that obtain neg where "fst (ParseFloat (Total r)) = Infinity neg"
      by (auto dest: ParseFloat_range_inf)
    then show ?thesis
      by (simp add: line_round_in_breakdown line_quarter_in_breakdown infinite_total_rules)
  qed
  ultimately show ?thesis
    by (simp add: line_odd_in_breakdown line_afternoon_in_breakdown zeroTime_rules)
qed

lemma eval_total_huge: "ParseFloat ''0x1p1024'' = (Infinity False, Some ErrRange)"
  by (simp add: ParseFloat_defs float_defs char_defs Let_def)

lemma eval_bad_date_time:
  "snd (time_Parse layout_2006_01_02 ''yesterday'') = Some ParseError"
  "snd (time_Parse layout_15_04 ''noon'') = Some ParseError"
  by (simp_all add: time_defs char_defs)

theorem C10_unvalidated_witness:
  "line_round \<in> set (snd (calculatePoints conv_amd64 unvalidated_receipt)) \<and>
   line_quarter \<in> set (snd (calculatePoints conv_amd64 unvalidated_receipt)) \<and>
   line_round \<notin> set (snd (calculatePoints conv_amd64
      (unvalidated_receipt\<lparr>Total := ''0x1p1024''\<rparr>))) \<and>
   line_quarter \<notin> set (snd (calculatePoints conv_amd64
      (unvalidated_receipt\<lparr>Total := ''0x1p1024''\<rparr>))) \<and>
   line_odd \<in> set (snd (calculatePoints conv_amd64
      (unvalidated_receipt\<lparr>PurchaseDate := ''yesterday'', PurchaseTime := ''noon''\<rparr>))) \<and>
   line_afternoon \<notin> set (snd (calculatePoints conv_amd64
      (unvalidated_receipt\<lparr>PurchaseDate := ''yesterday'', PurchaseTime := ''noon''\<rparr>)))"
  using C10_unvalidated [of unvalidated_receipt conv_amd64]
    C10_unvalidated [of "unvalidated_receipt\<lparr>Total := ''0x1p1024''\<rparr>" conv_amd64]
    C10_unvalidated [of "unvalidated_receipt\<lparr>PurchaseDate := ''yesterday'',
      PurchaseTime := ''noon''\<rparr>" conv_amd64]
    eval_total_abc eval_total_huge eval_bad_date_time
  by (simp add: unvalidated_receipt_def)

end
